theory Spec2Isabelle
  imports Complex_Main "HOL-Library.Sublist"
begin

section \<open>Python strings\<close>

text \<open>
  Python's \<^verbatim>\<open>a in b\<close> on strings: \<open>a\<close> occurs in \<open>b\<close> as a contiguous
  substring. The search tries every start position from the left.
\<close>

fun py_in :: "string \<Rightarrow> string \<Rightarrow> bool" where
  "py_in sub [] = (sub = [])"
| "py_in sub (c # cs) = (prefix sub (c # cs) \<or> py_in sub cs)"

text \<open>Python's \<^verbatim>\<open>str(n)\<close> for an integer, as an f-string prints it.\<close>

fun str_nat :: "nat \<Rightarrow> string" where
  "str_nat n =
     (if n < 10 then [''0123456789'' ! n]
      else str_nat (n div 10) @ [''0123456789'' ! (n mod 10)])"

declare str_nat.simps [simp del]

definition str_int :: "int \<Rightarrow> string" where
  "str_int i = (if i < 0 then CHR ''-'' # str_nat (nat (- i)) else str_nat (nat i))"

text \<open>
  Python's \<^verbatim>\<open>int(x)\<close> on a number truncates towards zero. The quotients of
  \<^verbatim>\<open>stop_n /= 60\<close> are Python floats; the model keeps them as exact rationals.
\<close>

definition py_int :: "rat \<Rightarrow> int" where
  "py_int q = (if 0 \<le> q then \<lfloor>q\<rfloor> else \<lceil>q\<rceil>)"

section \<open>Effects and errors\<close>

text \<open>
  What the orchestrator does to the outside world, in the order it does it. A function of
  the model returns the list of its events with its result; a raised exception is the
  \<open>Inl\<close> of the result.
\<close>

datatype event =
    LogError string
  | LogInfo string
  | Print string
  | LoadEnv
  | Subprocess string
  | Makedirs string
  | Rmtree string
  | CreateClone string
  | Chdir string
  | AppendUserNl string string
  | CreateNamelists
  | CheckAllInputData

text \<open>
  A bare \<^verbatim>\<open>raise\<close> outside an \<^verbatim>\<open>except\<close> block is Python's
  \<^verbatim>\<open>RuntimeError("No active exception to reraise")\<close>.
  \<open>CalledProcessError rc out\<close> carries the exit status and the \<^verbatim>\<open>output\<close>
  attribute, which may be \<^verbatim>\<open>None\<close>.
\<close>

datatype error =
    RuntimeError string
  | CalledProcessError int "string option"
  | OtherException string

definition bare_raise :: error where
  "bare_raise = RuntimeError ''No active exception to reraise''"

section \<open>Construction: the run-length check\<close>

text \<open>
  Lines 41 to 55 of \<^verbatim>\<open>RXCROPMATURITY.__init__\<close>: five \<^verbatim>\<open>if\<close> statements
  in sequence, each testing the unit the previous one left.
\<close>

definition normalize_run_length :: "rat \<Rightarrow> string \<Rightarrow> rat \<times> string" where
  "normalize_run_length stop_n stop_option =
     (let (n1, o1) = (if py_in ''nsecond'' stop_option
                      then (stop_n / 60, ''nminutes'') else (stop_n, stop_option));
          (n2, o2) = (if py_in ''nminute'' o1 then (n1 / 60, ''nhours'') else (n1, o1));
          (n3, o3) = (if py_in ''nhour'' o2 then (n2 / 24, ''ndays'') else (n2, o2));
          (n4, o4) = (if py_in ''nday'' o3 then (n3 / 365, ''nyears'') else (n3, o3));
          (n5, o5) = (if py_in ''nmonth'' o4 then (n4 / 12, ''nyears'') else (n4, o4))
      in (n5, o5))"

definition unit_error_message :: "string \<Rightarrow> string" where
  "unit_error_message stop_option_orig =
     ''STOP_OPTION ('' @ stop_option_orig @ '') must be nsecond(s), nminute(s), ''
       @ ''nhour(s), nday(s), nmonth(s), or nyear(s)''"

definition length_error_message :: "int \<Rightarrow> string \<Rightarrow> string" where
  "length_error_message stop_n_orig stop_option_orig =
     ''RXCROPMATURITY must be run for at least 5 years; you requested ''
       @ str_int stop_n_orig @ '' '' @ drop 1 stop_option_orig"

text \<open>
  Lines 37 to 72. The result is the value stored in \<^verbatim>\<open>self._run_Nyears\<close>. The
  second \<^verbatim>\<open>if\<close> assigns \<^verbatim>\<open>error_message\<close> whatever the first one did.
  The constructor of the base class, which belongs to the case-management framework, is
  called before and is left out.
\<close>

definition RXCROPMATURITY_init :: "int \<Rightarrow> string \<Rightarrow> event list \<times> (error + int)" where
  "RXCROPMATURITY_init stop_n_orig stop_option_orig =
     (let (stop_n, stop_option) = normalize_run_length (of_int stop_n_orig) stop_option_orig;
          error_message1 = (if \<not> py_in ''nyear'' stop_option
                            then Some (unit_error_message stop_option_orig) else None);
          error_message = (if stop_n < 5
                           then Some (length_error_message stop_n_orig stop_option_orig)
                           else error_message1)
      in case error_message of
           Some m \<Rightarrow> ([LogError m], Inl (RuntimeError m))
         | None \<Rightarrow> ([], Inr (py_int stop_n)))"

text \<open>An event that creates a clone or starts an external process.\<close>

fun spawns :: "event \<Rightarrow> bool" where
  "spawns (Subprocess c) = True"
| "spawns (CreateClone p) = True"
| "spawns e = False"




section \<open>Paths, joins and file-name patterns\<close>

text \<open>\<^verbatim>\<open>sep.join(xs)\<close>.\<close>

fun py_join :: "string \<Rightarrow> string list \<Rightarrow> string" where
  "py_join sep [] = []"
| "py_join sep [x] = x"
| "py_join sep (x # y # ys) = x @ sep @ py_join sep (y # ys)"

text \<open>
  \<^verbatim>\<open>os.path.join(a, *p)\<close> of \<^verbatim>\<open>posixpath\<close>: a component that starts with a
  slash replaces what came before; otherwise it is appended, after a slash unless the path
  so far is empty or already ends with one.
\<close>

definition join_step :: "string \<Rightarrow> string \<Rightarrow> string" where
  "join_step path b =
     (if prefix ''/'' b then b
      else if path = [] \<or> last path = CHR ''/'' then path @ b
      else path @ ''/'' @ b)"

definition os_path_join :: "string \<Rightarrow> string list \<Rightarrow> string" where
  "os_path_join a p = foldl join_step a p"

text \<open>\<^verbatim>\<open>os.path.split(p)\<close>: the tail is what follows the last slash; the head is what
  precedes it, without its trailing slashes unless it consists of slashes only.\<close>

definition split_tail :: "string \<Rightarrow> string" where
  "split_tail p = rev (takeWhile (\<lambda>c. c \<noteq> CHR ''/'') (rev p))"

definition split_head :: "string \<Rightarrow> string" where
  "split_head p =
     (let h = rev (dropWhile (\<lambda>c. c \<noteq> CHR ''/'') (rev p));
          h' = rev (dropWhile (\<lambda>c. c = CHR ''/'') (rev h))
      in if h' = [] then h else h')"

text \<open>
  \<^verbatim>\<open>fnmatch\<close> for a pattern whose only wildcard is the star: a star matches any
  run of characters, every other character matches itself.
\<close>

fun fnmatch :: "string \<Rightarrow> string \<Rightarrow> bool" where
  "fnmatch [] s = (s = [])"
| "fnmatch (p # ps) [] = (p = CHR ''*'' \<and> fnmatch ps [])"
| "fnmatch (p # ps) (c # t) =
     (if p = CHR ''*'' then fnmatch ps (c # t) \<or> fnmatch (p # ps) t
      else c = p \<and> fnmatch ps t)"

text \<open>
  Python's \<^verbatim>\<open>repr\<close> of a list of strings, for strings that need no escaping
  (no quote, backslash or control character).
\<close>

definition repr_str_list :: "string list \<Rightarrow> string" where
  "repr_str_list xs =
     ''['' @ py_join '', '' (map (\<lambda>x. [CHR 0x27] @ x @ [CHR 0x27]) xs) @ '']''"

text \<open>\<^verbatim>\<open>str(x)\<close> of a value that is a string or \<^verbatim>\<open>None\<close>.\<close>

fun str_opt :: "string option \<Rightarrow> string" where
  "str_opt None = ''None''"
| "str_opt (Some s) = s"

section \<open>The outside world\<close>

text \<open>
  How a call of \<^verbatim>\<open>subprocess.run(cmd, shell=True, check=True, ...)\<close> ends: the shell
  exits with a status (and \<^verbatim>\<open>check=True\<close> raises \<^verbatim>\<open>CalledProcessError\<close>
  with that status and its \<^verbatim>\<open>output\<close> attribute when the status is not zero), or
  the call raises some other exception.
\<close>

datatype outcome = Exited int "string option" | Raised string

text \<open>
  The answers of the file system and of the shell, each as of the moment the code asks.
  \<open>listdir\<close> of a directory that cannot be read is the empty list, as
  \<^verbatim>\<open>glob\<close> treats it.
\<close>

record world =
  path_exists :: "string \<Rightarrow> bool"
  listdir :: "string \<Rightarrow> string list"
  file_text :: "string \<Rightarrow> string option"
  can_write :: "string \<Rightarrow> bool"
  shell :: "string \<Rightarrow> outcome"

text \<open>
  \<^verbatim>\<open>glob.glob(pathname)\<close> for a path whose directory part has no wildcard: the
  entries of the directory that match the last component, hidden entries left out, each
  joined to the directory.
\<close>

definition glob_glob :: "world \<Rightarrow> string \<Rightarrow> string list" where
  "glob_glob w pathname =
     (let dirname = split_head pathname;
          basename = split_tail pathname;
          names = filter (\<lambda>x. \<not> prefix ''.'' x) (listdir w dirname)
      in map (\<lambda>name. os_path_join dirname [name]) (filter (fnmatch basename) names))"

section \<open>The orchestrator's fields\<close>

text \<open>
  The attributes of the \<^verbatim>\<open>RXCROPMATURITY\<close> object that the tool-running methods
  read and write. \<open>caseroot\<close> is what \<^verbatim>\<open>self._get_caseroot()\<close> returns, the root
  of the active case.
\<close>

record rxcropmaturity =
  run_Nyears :: int
  run_startyear :: int
  ctsm_root :: string
  caseroot :: string
  path_gddgen :: string
  sdatefile :: string
  hdatefile :: string
  lnd_in_path :: string
  flanduse_timeseries_in :: "string option"
  flanduse_timeseries_out :: string
  generate_gdds_dir :: string
  gdds_file :: string

section \<open>Crop calendar files for the grid\<close>

definition blessed_crop_dates_dir :: string where
  "blessed_crop_dates_dir = ''/glade/work/samrabin/crop_dates_blessed''"

definition sdates_10x15 :: string where
  "sdates_10x15 = os_path_join blessed_crop_dates_dir
     [''sdates_ggcmi_crop_calendar_phase3_v1.01_nninterp-f10_f10_mg37.2000-2000.20230330_165301.fill1.nc'']"

definition hdates_10x15 :: string where
  "hdates_10x15 = os_path_join blessed_crop_dates_dir
     [''hdates_ggcmi_crop_calendar_phase3_v1.01_nninterp-f10_f10_mg37.2000-2000.20230330_165301.fill1.nc'']"

definition sdates_f19 :: string where
  "sdates_f19 = os_path_join blessed_crop_dates_dir
     [''sdates_ggcmi_crop_calendar_phase3_v1.01_nninterp-f19_g17.2000-2000.20230102_175625.fill1.nc'']"

definition hdates_f19 :: string where
  "hdates_f19 = os_path_join blessed_crop_dates_dir
     [''hdates_ggcmi_crop_calendar_phase3_v1.01_nninterp-f19_g17.2000-2000.20230102_175625.fill1.nc'']"

text \<open>
  Lines 187 to 211 of \<^verbatim>\<open>_setup_all\<close>. The result is the pair stored in
  \<^verbatim>\<open>self._sdatefile\<close> and \<^verbatim>\<open>self._hdatefile\<close>. The message for a missing
  harvest file names the sowing file, as the source does.
\<close>

definition setup_all_crop_dates :: "world \<Rightarrow> string \<Rightarrow> event list \<times> (error + string \<times> string)" where
  "setup_all_crop_dates w lnd_grid =
     (case (if lnd_grid = ''10x15'' then Some (sdates_10x15, hdates_10x15)
            else if lnd_grid = ''1.9x2.5'' then Some (sdates_f19, hdates_f19)
            else None) of
        None \<Rightarrow>
          ([Print ''ERROR: RXCROPMATURITY currently only supports 10x15 and 1.9x2.5 resolutions''],
           Inl bare_raise)
      | Some (sdate, hdate) \<Rightarrow>
          if \<not> path_exists w sdate
          then ([Print (''ERROR: Sowing date file not found: '' @ sdate)], Inl bare_raise)
          else if \<not> path_exists w hdate
          then ([Print (''ERROR: Harvest date file not found: '' @ sdate)], Inl bare_raise)
          else ([], Inr (sdate, hdate)))"

section \<open>The subprocess runner\<close>

definition this_conda_env :: string where
  "this_conda_env = ''ctsm_pylib''"

text \<open>
  \<^verbatim>\<open>_get_conda_env\<close>: only \<^verbatim>\<open>CalledProcessError\<close> is caught, any other
  exception of the lookup leaves the method.
\<close>

definition get_conda_env :: "world \<Rightarrow> event list \<times> (error + string)" where
  "get_conda_env w =
     (case shell w ''which conda'' of
        Raised m \<Rightarrow> ([Subprocess ''which conda''], Inl (OtherException m))
      | Exited rc out \<Rightarrow>
          (let conda_env = (if rc = 0 then '' ''
                            else ''module unload python; module load conda;'')
           in ([Subprocess ''which conda''],
               Inr (conda_env @ '' conda run -n '' @ this_conda_env @ '' ''))))"

text \<open>\<^verbatim>\<open>_append_to_user_nl_clm\<close> with a list: one append per line, in order.\<close>

definition append_to_user_nl_clm :: "rxcropmaturity \<Rightarrow> string list \<Rightarrow> event list" where
  "append_to_user_nl_clm self additions = map (AppendUserNl (caseroot self)) additions"

text \<open>The lines printed in the \<^verbatim>\<open>except subprocess.CalledProcessError\<close> handler.\<close>

definition diagnostic_guidance :: "string \<Rightarrow> string list" where
  "diagnostic_guidance tool_name =
     [''ERROR while getting the conda environment and/or '',
      ''running the '' @ tool_name @ '' tool: '',
      ''(1) If your '' @ this_conda_env @ '' environment is out of date or you '',
      ''have not created the '' @ this_conda_env @ '' environment, yet, you may '',
      ''get past this error by running ./py_env_create '',
      ''in your ctsm directory and trying this test again. '',
      ''(2) If conda is not available, install and load conda, '',
      ''run ./py_env_create, and then try this test again. '',
      ''(3) If (1) and (2) are not the issue, then you may be '',
      ''getting an error within '' @ tool_name @ '' itself. '',
      ''Default error message: '']"

text \<open>The command line that \<^verbatim>\<open>_run_python_script\<close> hands to the shell.\<close>

definition composed_command :: "string \<Rightarrow> string \<Rightarrow> string \<Rightarrow> string" where
  "composed_command case_root conda command =
     ''. '' @ case_root @ ''/.env_mach_specific.sh; '' @ conda @ command"

text \<open>
  \<^verbatim>\<open>_run_python_script\<close>, lines 399 to 430. Opening the log file is the first
  statement of the \<^verbatim>\<open>try\<close> block, so a failure to open it is handled by the bare
  \<^verbatim>\<open>except\<close>, as is any exception of the run other than
  \<^verbatim>\<open>CalledProcessError\<close>.
\<close>

definition run_python_script ::
  "world \<Rightarrow> rxcropmaturity \<Rightarrow> string \<Rightarrow> string \<Rightarrow> event list \<times> (error + unit)" where
  "run_python_script w self command0 tool_path =
     (let tool_name = split_tail tool_path
      in case get_conda_env w of
           (ev, Inl e) \<Rightarrow> (LoadEnv # ev, Inl e)
         | (ev, Inr conda) \<Rightarrow>
             (let command = composed_command (caseroot self) conda command0;
                  pre = LoadEnv # ev @ [Print (''command: '' @ command)]
              in if \<not> can_write w (tool_name @ ''.log'')
                 then (pre @ [Print (''ERROR trying to run '' @ tool_name @ ''.'')],
                       Inl (OtherException ''OSError''))
                 else case shell w command of
                        Raised m \<Rightarrow>
                          (pre @ [Subprocess command,
                                  Print (''ERROR trying to run '' @ tool_name @ ''.'')],
                           Inl (OtherException m))
                      | Exited rc out \<Rightarrow>
                          if rc = 0 then (pre @ [Subprocess command], Inr ())
                          else (pre @ [Subprocess command]
                                  @ map Print (diagnostic_guidance tool_name)
                                  @ [Print (str_opt out)],
                                Inl (CalledProcessError rc out))))"

section \<open>The tool-running steps\<close>

text \<open>\<^verbatim>\<open>_run_make_lu_for_gddgen\<close>, lines 219 to 246.\<close>

definition make_lu_command :: "rxcropmaturity \<Rightarrow> string \<Rightarrow> string \<Rightarrow> string" where
  "make_lu_command self tool_path outfile =
     (let first_fake_year = run_startyear self;
          last_fake_year = first_fake_year + run_Nyears self
      in py_join '' ''
           [''python3 '' @ tool_path,
            ''--flanduse-timeseries '' @ str_opt (flanduse_timeseries_in self),
            ''-y1 '' @ str_int first_fake_year,
            ''-yN '' @ str_int last_fake_year,
            ''--outfile '' @ outfile])"

definition run_make_lu_for_gddgen ::
  "world \<Rightarrow> rxcropmaturity \<Rightarrow> event list \<times> (error + rxcropmaturity)" where
  "run_make_lu_for_gddgen w self0 =
     (let outfile = os_path_join (path_gddgen self0) [''flanduse_timeseries.nc''];
          self = self0\<lparr>flanduse_timeseries_out := outfile\<rparr>;
          tool_path = os_path_join (ctsm_root self)
                        [''python'', ''ctsm'', ''crop_calendars'', ''make_lu_for_gddgen.py''];
          (ev, r) = (if \<not> path_exists w outfile
                     then run_python_script w self (make_lu_command self tool_path outfile) tool_path
                     else ([], Inr ()))
      in case r of
           Inl e \<Rightarrow> (ev, Inl e)
         | Inr u \<Rightarrow>
             (ev @ [LogInfo ''SSRLOG  modify user_nl files: new flanduse_timeseries'']
                 @ append_to_user_nl_clm self
                     [''flanduse_timeseries = '' @ [CHR 0x27] @ outfile @ [CHR 0x27]],
              Inr self))"

text \<open>\<^verbatim>\<open>_run_check_rxboth_run\<close>, lines 291 to 306.\<close>

definition check_rxboth_command :: "rxcropmaturity \<Rightarrow> string \<Rightarrow> string" where
  "check_rxboth_command self tool_path =
     (let output_dir = os_path_join (caseroot self) [''run''];
          first_usable_year = run_startyear self + 2;
          last_usable_year = run_startyear self + run_Nyears self - 2
      in ''python3 '' @ tool_path @ '' ''
           @ ''--directory '' @ output_dir @ '' ''
           @ ''-y1 '' @ str_int first_usable_year @ '' ''
           @ ''-yN '' @ str_int last_usable_year @ '' ''
           @ ''--rx-sdates-file '' @ sdatefile self @ '' ''
           @ ''--rx-gdds-file '' @ gdds_file self @ '' '')"

definition run_check_rxboth_run :: "world \<Rightarrow> rxcropmaturity \<Rightarrow> event list \<times> (error + unit)" where
  "run_check_rxboth_run w self =
     (let tool_path = os_path_join (ctsm_root self)
                        [''python'', ''ctsm'', ''crop_calendars'', ''check_rxboth_run.py'']
      in run_python_script w self (check_rxboth_command self tool_path) tool_path)"

text \<open>
  \<^verbatim>\<open>_run_generate_gdds\<close>, lines 334 to 366. \<^verbatim>\<open>os.makedirs\<close> raises when the
  directory is already there. \<open>find_gdds_file\<close> is lines 361 to 366.
\<close>

definition generate_gdds_command :: "rxcropmaturity \<Rightarrow> string \<Rightarrow> string \<Rightarrow> string" where
  "generate_gdds_command self dout_sr tool_path =
     (let input_dir = os_path_join dout_sr [''lnd'', ''hist''];
          first_season = run_startyear self + 2;
          last_season = run_startyear self + run_Nyears self - 2;
          sdates_file = sdatefile self;
          hdates_file = hdatefile self
      in py_join '' ''
           [''python3 '' @ tool_path,
            ''--input-dir '' @ input_dir,
            ''--first-season '' @ str_int first_season,
            ''--last-season '' @ str_int last_season,
            ''--sdates-file '' @ sdates_file,
            ''--hdates-file '' @ hdates_file,
            ''--output-dir generate_gdds_out''])"

definition find_gdds_file :: "world \<Rightarrow> string \<Rightarrow> event list \<times> (error + string)" where
  "find_gdds_file w dir =
     (let generated_gdd_files = glob_glob w (os_path_join dir [''gdds_*.nc'']);
          generated_gdd_files = filter (\<lambda>x. \<not> py_in ''fill0'' x) generated_gdd_files
      in if length generated_gdd_files \<noteq> 1
         then ([Print (''ERROR: Expected one matching prescribed maturity requirements file; found ''
                        @ str_nat (length generated_gdd_files) @ '': ''
                        @ repr_str_list generated_gdd_files)],
               Inl bare_raise)
         else ([], Inr (generated_gdd_files ! 0)))"


definition run_generate_gdds ::
  "world \<Rightarrow> string \<Rightarrow> rxcropmaturity \<Rightarrow> event list \<times> (error + rxcropmaturity)" where
  "run_generate_gdds w dout_sr self0 =
     (let dir = os_path_join (path_gddgen self0) [''generate_gdds_out''];
          self = self0\<lparr>generate_gdds_dir := dir\<rparr>
      in if path_exists w dir then ([], Inl (OtherException ''FileExistsError''))
         else
           (let tool_path = os_path_join (ctsm_root self)
                              [''python'', ''ctsm'', ''crop_calendars'', ''generate_gdds.py''];
                (ev, r) = run_python_script w self
                            (generate_gdds_command self dout_sr tool_path) tool_path
            in case r of
                 Inl e \<Rightarrow> (Makedirs dir # ev, Inl e)
               | Inr u \<Rightarrow>
                   (case find_gdds_file w dir of
                      (ev', Inl e) \<Rightarrow> (Makedirs dir # ev @ ev', Inl e)
                    | (ev', Inr f) \<Rightarrow> (Makedirs dir # ev @ ev', Inr (self\<lparr>gdds_file := f\<rparr>)))))"

section \<open>Scanning the namelist\<close>

text \<open>
  The regular expressions of the source use three constructs: a literal character, a
  starred character (\<^verbatim>\<open> *\<close>) and the capturing group \<^verbatim>\<open>(.*)\<close>, whose dot
  matches every character but the newline.
\<close>

datatype rx_item = Lit char | Star char | GroupAny

text \<open>
  \<^verbatim>\<open>re.match\<close>: the pattern is matched at the start of the string and need not reach
  its end. Stars are greedy: the longest repetition is tried first, and a shorter one
  only when the rest of the pattern fails. The result is the list of captured groups.
\<close>

fun rx_match :: "rx_item list \<Rightarrow> string \<Rightarrow> string list option" where
  "rx_match [] s = Some []"
| "rx_match (Lit c # r) [] = None"
| "rx_match (Lit c # r) (x # t) = (if x = c then rx_match r t else None)"
| "rx_match (Star c # r) [] = rx_match r []"
| "rx_match (Star c # r) (x # t) =
     (if x = c
      then (case rx_match (Star c # r) t of
              Some gs \<Rightarrow> Some gs
            | None \<Rightarrow> rx_match r (x # t))
      else rx_match r (x # t))"
| "rx_match (GroupAny # r) [] = map_option (Cons []) (rx_match r [])"
| "rx_match (GroupAny # r) (x # t) =
     (if x \<noteq> CHR 0x0A
      then (case rx_match (GroupAny # r) t of
              Some (g # gs) \<Rightarrow> Some ((x # g) # gs)
            | Some [] \<Rightarrow> None
            | None \<Rightarrow> map_option (Cons []) (rx_match r (x # t)))
      else map_option (Cons []) (rx_match r (x # t)))"

text \<open>The pattern \<^verbatim>\<open>r" *key *= *'(.*)'"\<close>.\<close>

definition key_value_rx :: "string \<Rightarrow> rx_item list" where
  "key_value_rx key =
     Star CHR '' '' # map Lit key
       @ [Star CHR '' '', Lit CHR ''='', Star CHR '' '', Lit CHR 0x27, GroupAny, Lit CHR 0x27]"

text \<open>
  Iterating over a text file: each line keeps its newline; a last line without one is
  a line too. The text is the one Python hands over, line ends already translated to the
  newline character.
\<close>

fun py_lines :: "string \<Rightarrow> string list" where
  "py_lines [] = []"
| "py_lines (c # cs) =
     (if c = CHR 0x0A then [c] # py_lines cs
      else (case py_lines cs of [] \<Rightarrow> [[c]] | l # ls \<Rightarrow> (c # l) # ls))"

text \<open>
  The loop of lines 115 to 119: the first matching line decides, and
  \<^verbatim>\<open>group(1)\<close> of a match without a group would raise.
\<close>

fun scan_lines :: "rx_item list \<Rightarrow> string list \<Rightarrow> error + string option" where
  "scan_lines rx [] = Inr None"
| "scan_lines rx (line # ls) =
     (case rx_match rx line of
        None \<Rightarrow> scan_lines rx ls
      | Some [] \<Rightarrow> Inl (OtherException ''IndexError: no such group'')
      | Some (g # gs) \<Rightarrow> Inr (Some g))"

definition scan_flanduse_timeseries :: "string \<Rightarrow> error + string option" where
  "scan_flanduse_timeseries text =
     scan_lines (key_value_rx ''flanduse_timeseries'') (py_lines text)"

text \<open>
  Lines 110 to 130 of \<^verbatim>\<open>run_phase\<close>: the namelist is generated and read, and the
  land-use file is made only when the key is found.
\<close>

definition run_phase_flanduse ::
  "world \<Rightarrow> rxcropmaturity \<Rightarrow> event list \<times> (error + rxcropmaturity)" where
  "run_phase_flanduse w self0 =
     (let path = os_path_join (path_gddgen self0) [''CaseDocs'', ''lnd_in''];
          self1 = self0\<lparr>lnd_in_path := path, flanduse_timeseries_in := None\<rparr>
      in case file_text w path of
           None \<Rightarrow> ([CreateNamelists], Inl (OtherException ''FileNotFoundError''))
         | Some text \<Rightarrow>
             (case scan_flanduse_timeseries text of
                Inl e \<Rightarrow> ([CreateNamelists], Inl e)
              | Inr None \<Rightarrow> ([CreateNamelists], Inr self1)
              | Inr (Some v) \<Rightarrow>
                  (let self = self1\<lparr>flanduse_timeseries_in := Some v\<rparr>;
                       (ev, r) = run_make_lu_for_gddgen w self
                   in ([CreateNamelists, CheckAllInputData,
                        LogInfo ''SSRLOG  run make_lu_for_gddgen''] @ ev, r))))"

text \<open>A line of the form the specification describes, with any number of spaces before
  the key and around the equals sign.\<close>

definition namelist_line :: "nat \<Rightarrow> string \<Rightarrow> nat \<Rightarrow> nat \<Rightarrow> string \<Rightarrow> string" where
  "namelist_line a key b c v =
     replicate a CHR '' '' @ key @ replicate b CHR '' '' @ ''='' @ replicate c CHR '' ''
       @ [CHR 0x27] @ v @ [CHR 0x27]"

section \<open>Case colours of the plotting helper\<close>

text \<open>\<^verbatim>\<open>str.lower()\<close> on ASCII text.\<close>

definition lower_char :: "char \<Rightarrow> char" where
  "lower_char c =
     (case map_of (zip ''ABCDEFGHIJKLMNOPQRSTUVWXYZ'' ''abcdefghijklmnopqrstuvwxyz'') c of
        Some d \<Rightarrow> d
      | None \<Rightarrow> c)"

definition py_lower :: "string \<Rightarrow> string" where
  "py_lower s = map lower_char s"

text \<open>
  \<^verbatim>\<open>s.replace(old, new)\<close>: every occurrence of \<open>old\<close>, found from the left without
  overlap, becomes \<open>new\<close>. An empty \<open>old\<close> occurs before every character and at the end.
\<close>

function py_replace :: "string \<Rightarrow> string \<Rightarrow> string \<Rightarrow> string" where
  "py_replace old new s =
     (if old = [] then new @ concat (map (\<lambda>c. c # new) s)
      else if s = [] then []
      else if prefix old s then new @ py_replace old new (drop (length old) s)
      else hd s # py_replace old new (tl s))"
  by pat_completeness auto
termination
  by (relation "measure (\<lambda>(old, new, s). length s)") (auto simp: neq_Nil_conv)

declare py_replace.simps [simp del]

text \<open>
  Lines 35 to 42: the dictionary literal and the two entries added to it. The colour
  components \<^verbatim>\<open>x / 255\<close> are Python floats, kept here as exact rationals.
\<close>

definition case_color_dict :: "(string \<times> rat list) list" where
  "case_color_dict =
     (let d = [(''clm default'', map (\<lambda>x. x / 255) [92, 219, 219]),
               (''prescribed calendars'', map (\<lambda>x. x / 255) [250, 102, 240]),
               (''prescribed maturity'', map (\<lambda>x. x / 255) [128, 0, 0]),
               (''prescribed sowing'', map (\<lambda>x. x / 255) [133, 92, 255])]
      in d @ [(''5.0 lu'', the (map_of d ''clm default'')),
              (''5.2 lu'', the (map_of d ''prescribed calendars''))])"

definition casename_for_colors :: "string \<Rightarrow> string" where
  "casename_for_colors casename =
     py_replace '' (1)'' [] (py_replace '' (0)'' [] (py_lower casename))"

definition cropcal_colors_cases :: "string \<Rightarrow> rat list option" where
  "cropcal_colors_cases casename =
     (let k = casename_for_colors casename
      in if k \<in> set (map fst case_color_dict) then map_of case_color_dict k else None)"

text \<open>
  The lookup as the specification words it: the name is lowercased, one trailing marker
  is stripped, and the six names have their colours.
\<close>

definition spec_strip_trailing_marker :: "string \<Rightarrow> string" where
  "spec_strip_trailing_marker s =
     (if suffix '' (0)'' s \<or> suffix '' (1)'' s then take (length s - 4) s else s)"

definition spec_case_color :: "string \<Rightarrow> rat list option" where
  "spec_case_color casename =
     (let k = spec_strip_trailing_marker (py_lower casename)
      in if k = ''clm default'' \<or> k = ''5.0 lu'' then Some [92 / 255, 219 / 255, 219 / 255]
         else if k = ''prescribed calendars'' \<or> k = ''5.2 lu''
              then Some [250 / 255, 102 / 255, 240 / 255]
         else if k = ''prescribed maturity'' then Some [128 / 255, 0, 0]
         else if k = ''prescribed sowing'' then Some [133 / 255, 92 / 255, 255 / 255]
         else None)"

section \<open>Example inputs\<close>

text \<open>
  An orchestrator after construction and \<^verbatim>\<open>_setup_all\<close> for a five-year run from 2000,
  and a world in which \<open>ps\<close> are the paths that exist, \<open>names\<close> the entries of the
  tool's output directory, \<open>text\<close> the generated namelist, conda is found and every
  other command exits with \<open>rc\<close>.
\<close>

definition example_self :: rxcropmaturity where
  "example_self =
     \<lparr>run_Nyears = 5, run_startyear = 2000, ctsm_root = ''/ctsm'',
      caseroot = ''/case.gddgen'', path_gddgen = ''/case.gddgen'',
      sdatefile = ''/d/s.nc'', hdatefile = ''/d/h.nc'', lnd_in_path = [],
      flanduse_timeseries_in = None, flanduse_timeseries_out = [],
      generate_gdds_dir = [], gdds_file = ''/d/g.nc''\<rparr>"

definition example_world :: "string list \<Rightarrow> string list \<Rightarrow> string \<Rightarrow> int \<Rightarrow> world" where
  "example_world ps names text rc =
     \<lparr>path_exists = (\<lambda>p. p \<in> set ps),
      listdir = (\<lambda>d. if d = ''/case.gddgen/generate_gdds_out'' then names else []),
      file_text = (\<lambda>p. if p = ''/case.gddgen/CaseDocs/lnd_in'' then Some text else None),
      can_write = (\<lambda>p. True),
      shell = (\<lambda>c. if c = ''which conda'' then Exited 0 None else Exited rc None)\<rparr>"

definition example_namelist :: string where
  "example_namelist =
     ''&clm_inparm'' @ [CHR 0x0A]
       @ '' fsurdat = '/in/surf.nc'' @ [CHR 0x27, CHR 0x0A]
       @ '' flanduse_timeseries = '/in/lu.nc'' @ [CHR 0x27, CHR 0x0A]
       @ ''/'' @ [CHR 0x0A]"

section \<open>Properties of the run-length check\<close>






text \<open>
  Claim C2. A stop unit that never reduces to years should fail with the unit error
  whatever the stop count. With the unit \<open>nsteps\<close> and the count 7 it does. With the
  count 3 the unit error is built too, but the length check that follows replaces it, and
  the length error is what is logged and raised.
\<close>

theorem unit_error_overwritten_by_length_error:
  "RXCROPMATURITY_init 7 ''nsteps'' =
     ([LogError (unit_error_message ''nsteps'')],
      Inl (RuntimeError (unit_error_message ''nsteps'')))
   \<and> unit_error_message ''nsteps'' =
       ''STOP_OPTION (nsteps) must be nsecond(s), nminute(s), nhour(s), nday(s), nmonth(s), or nyear(s)''
   \<and> RXCROPMATURITY_init 3 ''nsteps'' =
     ([LogError ''RXCROPMATURITY must be run for at least 5 years; you requested 3 steps''],
      Inl (RuntimeError
             ''RXCROPMATURITY must be run for at least 5 years; you requested 3 steps''))"
  by (simp add: RXCROPMATURITY_init_def normalize_run_length_def length_error_message_def
      unit_error_message_def str_int_def str_nat.simps)



section \<open>Facts about the example inputs\<close>

lemma example_conda:
  "get_conda_env (example_world ps names text rc) =
     ([Subprocess ''which conda''], Inr ''  conda run -n ctsm_pylib '')"
  by (simp add: get_conda_env_def example_world_def this_conda_env_def)

lemma str_int_examples:
  "str_int 2000 = ''2000''" "str_int 2002 = ''2002''" "str_int 2003 = ''2003''"
  "str_int 2005 = ''2005''"
  by (simp_all add: str_int_def str_nat.simps)

lemma example_namelist_scan:
  "scan_flanduse_timeseries example_namelist = Inr (Some ''/in/lu.nc'')"
  by (simp add: scan_flanduse_timeseries_def example_namelist_def key_value_rx_def)

section \<open>Properties of the crop calendar lookup\<close>

text \<open>
  Claim C4. For each of the two supported grids, \<open>10x15\<close> and \<open>1.9x2.5\<close>, the lookup
  returns its fixed pair of sowing and harvest date files when both exist, and fails when
  either is missing. For every other grid it fails with a result that does not depend on
  the file system: no file is looked at.
\<close>

theorem crop_dates_lookup:
  "(path_exists w sdates_10x15 \<and> path_exists w hdates_10x15 \<longrightarrow>
      setup_all_crop_dates w ''10x15'' = ([], Inr (sdates_10x15, hdates_10x15)))
   \<and> (path_exists w sdates_f19 \<and> path_exists w hdates_f19 \<longrightarrow>
      setup_all_crop_dates w ''1.9x2.5'' = ([], Inr (sdates_f19, hdates_f19)))
   \<and> (\<not> (path_exists w sdates_10x15 \<and> path_exists w hdates_10x15) \<longrightarrow>
      snd (setup_all_crop_dates w ''10x15'') = Inl bare_raise)
   \<and> (\<not> (path_exists w sdates_f19 \<and> path_exists w hdates_f19) \<longrightarrow>
      snd (setup_all_crop_dates w ''1.9x2.5'') = Inl bare_raise)
   \<and> (g \<noteq> ''10x15'' \<and> g \<noteq> ''1.9x2.5'' \<longrightarrow>
      setup_all_crop_dates w g =
        ([Print ''ERROR: RXCROPMATURITY currently only supports 10x15 and 1.9x2.5 resolutions''],
         Inl bare_raise))"
  by (simp add: setup_all_crop_dates_def)

theorem crop_dates_lookup_witness:
  "setup_all_crop_dates (example_world [sdates_10x15, hdates_10x15] [] [] 0) ''10x15'' =
     ([], Inr (''/glade/work/samrabin/crop_dates_blessed/sdates_ggcmi_crop_calendar_phase3_v1.01_nninterp-f10_f10_mg37.2000-2000.20230330_165301.fill1.nc'',
               ''/glade/work/samrabin/crop_dates_blessed/hdates_ggcmi_crop_calendar_phase3_v1.01_nninterp-f10_f10_mg37.2000-2000.20230330_165301.fill1.nc''))
   \<and> setup_all_crop_dates (example_world [sdates_f19, hdates_f19] [] [] 0) ''1.9x2.5'' =
     ([], Inr (''/glade/work/samrabin/crop_dates_blessed/sdates_ggcmi_crop_calendar_phase3_v1.01_nninterp-f19_g17.2000-2000.20230102_175625.fill1.nc'',
               ''/glade/work/samrabin/crop_dates_blessed/hdates_ggcmi_crop_calendar_phase3_v1.01_nninterp-f19_g17.2000-2000.20230102_175625.fill1.nc''))
   \<and> snd (setup_all_crop_dates (example_world [sdates_10x15] [] [] 0) ''10x15'') = Inl bare_raise
   \<and> snd (setup_all_crop_dates (example_world [hdates_f19] [] [] 0) ''1.9x2.5'') = Inl bare_raise
   \<and> setup_all_crop_dates (example_world [sdates_10x15, hdates_10x15] [] [] 0) ''f19_g17'' =
       ([Print ''ERROR: RXCROPMATURITY currently only supports 10x15 and 1.9x2.5 resolutions''],
        Inl bare_raise)"
  using crop_dates_lookup [of "example_world [sdates_10x15, hdates_10x15] [] [] 0" "''f19_g17''"]
    crop_dates_lookup [of "example_world [sdates_f19, hdates_f19] [] [] 0" "''f19_g17''"]
    crop_dates_lookup [of "example_world [sdates_10x15] [] [] 0" "''f19_g17''"]
    crop_dates_lookup [of "example_world [hdates_f19] [] [] 0" "''f19_g17''"]
  by (simp add: example_world_def sdates_10x15_def hdates_10x15_def sdates_f19_def hdates_f19_def
      os_path_join_def join_step_def blessed_crop_dates_dir_def)

section \<open>Properties of the subprocess runner\<close>

lemma split_tail_join_step:
  assumes "CHR ''/'' \<notin> set b"
  shows "split_tail (join_step p b) = b"
proof -
  have np: "\<not> prefix ''/'' b" using assms by (cases b) auto
  have tw: "takeWhile (\<lambda>c. c \<noteq> CHR ''/'') (rev b) = rev b"
    using assms by (auto simp add: takeWhile_eq_all_conv)
  show ?thesis
  proof (cases "p = [] \<or> last p = CHR ''/''")
    case True
    then have "takeWhile (\<lambda>c. c \<noteq> CHR ''/'') (rev b @ rev p) = rev b"
      using assms by (cases p rule: rev_cases) (auto simp: takeWhile_tail tw)
    with True np show ?thesis by (simp add: join_step_def split_tail_def)
  next
    case False
    have "takeWhile (\<lambda>c. c \<noteq> CHR ''/'') (rev b @ CHR ''/'' # rev p) = rev b"
      using assms by (auto simp add: takeWhile_tail)
    with False np show ?thesis by (simp add: join_step_def split_tail_def)
  qed
qed

lemma split_tail_os_path_join:
  assumes "CHR ''/'' \<notin> set b"
  shows "split_tail (os_path_join a (xs @ [b])) = b"
  using assms by (simp add: os_path_join_def split_tail_join_step)

lemma tool_name_of_path:
  assumes "CHR ''/'' \<notin> set b"
  shows "split_tail (os_path_join a [d1, d2, d3, b]) = b"
  using split_tail_os_path_join [OF assms, of a "[d1, d2, d3]"] by simp

lemma run_python_script_spawns:
  assumes "get_conda_env w = (ev, Inr conda)"
    and "can_write w (split_tail tool_path @ ''.log'')"
  shows "Subprocess (composed_command (caseroot self) conda command)
           \<in> set (fst (run_python_script w self command tool_path))"
  using assms
  by (auto simp add: run_python_script_def Let_def split: outcome.splits)

lemma run_generate_gdds_events:
  assumes "\<not> path_exists w (os_path_join (path_gddgen self) [''generate_gdds_out''])"
  shows "set (fst (run_python_script w (self\<lparr>generate_gdds_dir := os_path_join (path_gddgen self) [''generate_gdds_out'']\<rparr>)
            (generate_gdds_command self dout_sr
               (os_path_join (ctsm_root self) [''python'', ''ctsm'', ''crop_calendars'', ''generate_gdds.py'']))
            (os_path_join (ctsm_root self) [''python'', ''ctsm'', ''crop_calendars'', ''generate_gdds.py''])))
         \<subseteq> set (fst (run_generate_gdds w dout_sr self))"
  using assms
  by (auto simp add: run_generate_gdds_def Let_def generate_gdds_command_def
      split: prod.splits sum.splits)



section \<open>Properties of the tool-running steps\<close>

lemma run_make_lu_spawns:
  assumes "get_conda_env w = (ev, Inr conda)"
    and "can_write w ''make_lu_for_gddgen.py.log''"
    and "\<not> path_exists w (os_path_join (path_gddgen self) [''flanduse_timeseries.nc''])"
  shows "Subprocess (composed_command (caseroot self) conda
           (make_lu_command self
              (os_path_join (ctsm_root self)
                 [''python'', ''ctsm'', ''crop_calendars'', ''make_lu_for_gddgen.py''])
              (os_path_join (path_gddgen self) [''flanduse_timeseries.nc''])))
         \<in> set (fst (run_make_lu_for_gddgen w self))"
proof -
  let ?out = "os_path_join (path_gddgen self) [''flanduse_timeseries.nc'']"
  let ?tool = "os_path_join (ctsm_root self)
                 [''python'', ''ctsm'', ''crop_calendars'', ''make_lu_for_gddgen.py'']"
  let ?self = "self\<lparr>flanduse_timeseries_out := ?out\<rparr>"
  let ?cmd = "make_lu_command self ?tool ?out"
  have name: "split_tail ?tool = ''make_lu_for_gddgen.py''"
    by (rule tool_name_of_path) simp
  have cmd: "make_lu_command ?self ?tool ?out = ?cmd"
    by (simp add: make_lu_command_def)
  have "Subprocess (composed_command (caseroot ?self) conda ?cmd)
          \<in> set (fst (run_python_script w ?self ?cmd ?tool))"
    using assms(1,2) name by (intro run_python_script_spawns) simp_all
  moreover have "set (fst (run_python_script w ?self ?cmd ?tool))
          \<subseteq> set (fst (run_make_lu_for_gddgen w self))"
    using assms(3) cmd
    by (auto simp add: run_make_lu_for_gddgen_def Let_def split: prod.splits sum.splits)
  ultimately show ?thesis by auto
qed

lemma run_make_lu_reuses:
  assumes "path_exists w (os_path_join (path_gddgen self) [''flanduse_timeseries.nc''])"
  shows "filter spawns (fst (run_make_lu_for_gddgen w self)) = []
    \<and> snd (run_make_lu_for_gddgen w self) =
        Inr (self\<lparr>flanduse_timeseries_out :=
                    os_path_join (path_gddgen self) [''flanduse_timeseries.nc'']\<rparr>)"
  using assms
  by (simp add: run_make_lu_for_gddgen_def Let_def append_to_user_nl_clm_def)

text \<open>
  Claim C6. With start year \<open>S\<close> and run length \<open>N\<close>, the command of the
  maturity-derivation step carries \<open>--first-season S+2\<close> and \<open>--last-season S+N-2\<close>,
  the command of the validation step carries \<open>-y1 S+2\<close> and \<open>-yN S+N-2\<close>, and each
  step hands its command to the shell. For \<open>N = 5\<close> the bounds are \<open>S+2\<close> and \<open>S+3\<close>.
\<close>

theorem season_bounds_of_both_steps:
  assumes "run_startyear self = S" and "run_Nyears self = N"
    and "get_conda_env w = (ev, Inr conda)"
  shows "generate_gdds_command self dout_sr tool =
           py_join '' ''
             [''python3 '' @ tool,
              ''--input-dir '' @ os_path_join dout_sr [''lnd'', ''hist''],
              ''--first-season '' @ str_int (S + 2),
              ''--last-season '' @ str_int (S + N - 2),
              ''--sdates-file '' @ sdatefile self,
              ''--hdates-file '' @ hdatefile self,
              ''--output-dir generate_gdds_out'']
    \<and> check_rxboth_command self tool =
           ''python3 '' @ tool @ '' --directory '' @ os_path_join (caseroot self) [''run'']
             @ '' -y1 '' @ str_int (S + 2) @ '' -yN '' @ str_int (S + N - 2)
             @ '' --rx-sdates-file '' @ sdatefile self
             @ '' --rx-gdds-file '' @ gdds_file self @ '' ''
    \<and> (\<not> path_exists w (os_path_join (path_gddgen self) [''generate_gdds_out''])
        \<and> can_write w ''generate_gdds.py.log'' \<longrightarrow>
        Subprocess (composed_command (caseroot self) conda
                      (generate_gdds_command self dout_sr
                         (os_path_join (ctsm_root self)
                            [''python'', ''ctsm'', ''crop_calendars'', ''generate_gdds.py''])))
          \<in> set (fst (run_generate_gdds w dout_sr self)))
    \<and> (can_write w ''check_rxboth_run.py.log'' \<longrightarrow>
        Subprocess (composed_command (caseroot self) conda
                      (check_rxboth_command self
                         (os_path_join (ctsm_root self)
                            [''python'', ''ctsm'', ''crop_calendars'', ''check_rxboth_run.py''])))
          \<in> set (fst (run_check_rxboth_run w self)))
    \<and> (N = 5 \<longrightarrow> (S + 2, S + N - 2) = (S + 2, S + 3))"
proof -
  let ?gt = "os_path_join (ctsm_root self) [''python'', ''ctsm'', ''crop_calendars'', ''generate_gdds.py'']"
  let ?ct = "os_path_join (ctsm_root self) [''python'', ''ctsm'', ''crop_calendars'', ''check_rxboth_run.py'']"
  let ?dir = "os_path_join (path_gddgen self) [''generate_gdds_out'']"
  have a: "generate_gdds_command self dout_sr tool =
           py_join '' ''
             [''python3 '' @ tool,
              ''--input-dir '' @ os_path_join dout_sr [''lnd'', ''hist''],
              ''--first-season '' @ str_int (S + 2),
              ''--last-season '' @ str_int (S + N - 2),
              ''--sdates-file '' @ sdatefile self,
              ''--hdates-file '' @ hdatefile self,
              ''--output-dir generate_gdds_out'']"
    using assms(1,2) by (simp add: generate_gdds_command_def)
  have b: "check_rxboth_command self tool =
           ''python3 '' @ tool @ '' --directory '' @ os_path_join (caseroot self) [''run'']
             @ '' -y1 '' @ str_int (S + 2) @ '' -yN '' @ str_int (S + N - 2)
             @ '' --rx-sdates-file '' @ sdatefile self
             @ '' --rx-gdds-file '' @ gdds_file self @ '' ''"
    using assms(1,2) by (simp add: check_rxboth_command_def)
  have gname: "split_tail ?gt = ''generate_gdds.py''"
    by (rule tool_name_of_path) simp
  have cname: "split_tail ?ct = ''check_rxboth_run.py''"
    by (rule tool_name_of_path) simp
  have c: "Subprocess (composed_command (caseroot self) conda (generate_gdds_command self dout_sr ?gt))
          \<in> set (fst (run_generate_gdds w dout_sr self))"
    if ne: "\<not> path_exists w ?dir" and cw: "can_write w ''generate_gdds.py.log''"
  proof -
    have "Subprocess (composed_command (caseroot (self\<lparr>generate_gdds_dir := ?dir\<rparr>)) conda
               (generate_gdds_command self dout_sr ?gt))
          \<in> set (fst (run_python_script w (self\<lparr>generate_gdds_dir := ?dir\<rparr>)
                         (generate_gdds_command self dout_sr ?gt) ?gt))"
      using assms(3) cw gname by (intro run_python_script_spawns) simp_all
    then show ?thesis using run_generate_gdds_events [OF ne, of dout_sr] by auto
  qed
  have d: "Subprocess (composed_command (caseroot self) conda (check_rxboth_command self ?ct))
          \<in> set (fst (run_check_rxboth_run w self))"
    if cw: "can_write w ''check_rxboth_run.py.log''"
    unfolding run_check_rxboth_run_def Let_def
    using assms(3) cw cname by (intro run_python_script_spawns) simp_all
  show ?thesis using a b c d by simp
qed

theorem season_bounds_of_both_steps_witness:
  "run_startyear example_self = 2000 \<and> run_Nyears example_self = 5
   \<and> generate_gdds_command example_self ''/arch'' ''/ctsm/python/ctsm/crop_calendars/generate_gdds.py'' =
       ''python3 /ctsm/python/ctsm/crop_calendars/generate_gdds.py --input-dir /arch/lnd/hist --first-season 2002 --last-season 2003 --sdates-file /d/s.nc --hdates-file /d/h.nc --output-dir generate_gdds_out''
   \<and> check_rxboth_command example_self ''/ctsm/python/ctsm/crop_calendars/check_rxboth_run.py'' =
       ''python3 /ctsm/python/ctsm/crop_calendars/check_rxboth_run.py --directory /case.gddgen/run -y1 2002 -yN 2003 --rx-sdates-file /d/s.nc --rx-gdds-file /d/g.nc ''
   \<and> Subprocess ''. /case.gddgen/.env_mach_specific.sh;   conda run -n ctsm_pylib python3 /ctsm/python/ctsm/crop_calendars/generate_gdds.py --input-dir /arch/lnd/hist --first-season 2002 --last-season 2003 --sdates-file /d/s.nc --hdates-file /d/h.nc --output-dir generate_gdds_out''
       \<in> set (fst (run_generate_gdds (example_world [] [''gdds_1.nc''] [] 0) ''/arch'' example_self))
   \<and> Subprocess ''. /case.gddgen/.env_mach_specific.sh;   conda run -n ctsm_pylib python3 /ctsm/python/ctsm/crop_calendars/check_rxboth_run.py --directory /case.gddgen/run -y1 2002 -yN 2003 --rx-sdates-file /d/s.nc --rx-gdds-file /d/g.nc ''
       \<in> set (fst (run_check_rxboth_run (example_world [] [''gdds_1.nc''] [] 0) example_self))"
proof -
  have s: "run_startyear example_self = 2000" and n: "run_Nyears example_self = 5"
    by (simp_all add: example_self_def)
  have ne: "\<not> path_exists (example_world [] [''gdds_1.nc''] [] 0) p" for p
    by (simp add: example_world_def)
  have cw: "can_write (example_world [] [''gdds_1.nc''] [] 0) p" for p
    by (simp add: example_world_def)
  have paths: "os_path_join (ctsm_root example_self)
                 [''python'', ''ctsm'', ''crop_calendars'', ''generate_gdds.py'']
               = ''/ctsm/python/ctsm/crop_calendars/generate_gdds.py''"
    "os_path_join (ctsm_root example_self)
                 [''python'', ''ctsm'', ''crop_calendars'', ''check_rxboth_run.py'']
               = ''/ctsm/python/ctsm/crop_calendars/check_rxboth_run.py''"
    "os_path_join ''/arch'' [''lnd'', ''hist''] = ''/arch/lnd/hist''"
    "os_path_join (caseroot example_self) [''run''] = ''/case.gddgen/run''"
    by (simp_all add: example_self_def os_path_join_def join_step_def)
  have fields: "sdatefile example_self = ''/d/s.nc''" "hdatefile example_self = ''/d/h.nc''"
    "gdds_file example_self = ''/d/g.nc''" "caseroot example_self = ''/case.gddgen''"
    by (simp_all add: example_self_def)
  note t1 = season_bounds_of_both_steps [OF s n example_conda,
      of "''/arch''" "''/ctsm/python/ctsm/crop_calendars/generate_gdds.py''" "[]" "[''gdds_1.nc'']" "[]" 0]
  note t2 = season_bounds_of_both_steps [OF s n example_conda,
      of "''/arch''" "''/ctsm/python/ctsm/crop_calendars/check_rxboth_run.py''" "[]" "[''gdds_1.nc'']" "[]" 0]
  have g: "generate_gdds_command example_self ''/arch'' ''/ctsm/python/ctsm/crop_calendars/generate_gdds.py'' =
       ''python3 /ctsm/python/ctsm/crop_calendars/generate_gdds.py --input-dir /arch/lnd/hist --first-season 2002 --last-season 2003 --sdates-file /d/s.nc --hdates-file /d/h.nc --output-dir generate_gdds_out''"
    using t1 by (simp add: paths fields str_int_examples os_path_join_def join_step_def)
  have c: "check_rxboth_command example_self ''/ctsm/python/ctsm/crop_calendars/check_rxboth_run.py'' =
       ''python3 /ctsm/python/ctsm/crop_calendars/check_rxboth_run.py --directory /case.gddgen/run -y1 2002 -yN 2003 --rx-sdates-file /d/s.nc --rx-gdds-file /d/g.nc ''"
    using t2 by (simp add: paths fields str_int_examples os_path_join_def join_step_def)
  show ?thesis
    using t1 s n ne cw
    by (simp add: paths g c fields composed_command_def)
qed

text \<open>
  Claim C9. When the namelist defines \<open>flanduse_timeseries\<close> and the land-use file of
  the test does not exist yet, the generator is run with \<open>-y1 S\<close> and \<open>-yN S+N\<close>.
  When the file exists already, no process is started and the step succeeds.
\<close>

theorem landuse_file_made_once:
  assumes "run_startyear self = S" and "run_Nyears self = N"
    and "file_text w (os_path_join (path_gddgen self) [''CaseDocs'', ''lnd_in'']) = Some text"
    and "scan_flanduse_timeseries text = Inr (Some v)"
    and "get_conda_env w = (ev, Inr conda)"
    and "can_write w ''make_lu_for_gddgen.py.log''"
  shows "(\<not> path_exists w (os_path_join (path_gddgen self) [''flanduse_timeseries.nc'']) \<longrightarrow>
          Subprocess (composed_command (caseroot self) conda
            (py_join '' ''
               [''python3 '' @ os_path_join (ctsm_root self)
                   [''python'', ''ctsm'', ''crop_calendars'', ''make_lu_for_gddgen.py''],
                ''--flanduse-timeseries '' @ v,
                ''-y1 '' @ str_int S,
                ''-yN '' @ str_int (S + N),
                ''--outfile '' @ os_path_join (path_gddgen self) [''flanduse_timeseries.nc'']]))
          \<in> set (fst (run_phase_flanduse w self)))
    \<and> (path_exists w (os_path_join (path_gddgen self) [''flanduse_timeseries.nc'']) \<longrightarrow>
          filter spawns (fst (run_phase_flanduse w self)) = []
          \<and> (\<exists>self'. snd (run_phase_flanduse w self) = Inr self'))"
proof -
  let ?out = "os_path_join (path_gddgen self) [''flanduse_timeseries.nc'']"
  let ?tool = "os_path_join (ctsm_root self)
                 [''python'', ''ctsm'', ''crop_calendars'', ''make_lu_for_gddgen.py'']"
  let ?self = "self\<lparr>lnd_in_path := os_path_join (path_gddgen self) [''CaseDocs'', ''lnd_in''],
                     flanduse_timeseries_in := Some v\<rparr>"
  have phase: "run_phase_flanduse w self =
      ([CreateNamelists, CheckAllInputData, LogInfo ''SSRLOG  run make_lu_for_gddgen'']
         @ fst (run_make_lu_for_gddgen w ?self),
       snd (run_make_lu_for_gddgen w ?self))"
    using assms(3,4) by (simp add: run_phase_flanduse_def Let_def split: prod.splits)
  have cmd: "make_lu_command ?self ?tool ?out =
      py_join '' ''
        [''python3 '' @ ?tool, ''--flanduse-timeseries '' @ v, ''-y1 '' @ str_int S,
         ''-yN '' @ str_int (S + N), ''--outfile '' @ ?out]"
    using assms(1,2) by (simp add: make_lu_command_def)
  have a: "Subprocess (composed_command (caseroot self) conda
            (py_join '' ''
               [''python3 '' @ ?tool, ''--flanduse-timeseries '' @ v, ''-y1 '' @ str_int S,
                ''-yN '' @ str_int (S + N), ''--outfile '' @ ?out]))
          \<in> set (fst (run_phase_flanduse w self))"
    if ne: "\<not> path_exists w ?out"
  proof -
    have "\<not> path_exists w (os_path_join (path_gddgen ?self) [''flanduse_timeseries.nc''])"
      using ne by simp
    from run_make_lu_spawns [OF assms(5,6) this]
    show ?thesis using cmd by (simp add: phase)
  qed
  have b: "filter spawns (fst (run_phase_flanduse w self)) = []
          \<and> (\<exists>self'. snd (run_phase_flanduse w self) = Inr self')"
    if ex: "path_exists w ?out"
  proof -
    have "path_exists w (os_path_join (path_gddgen ?self) [''flanduse_timeseries.nc''])"
      using ex by simp
    from run_make_lu_reuses [OF this]
    show ?thesis by (simp add: phase)
  qed
  show ?thesis using a b by blast
qed

theorem landuse_file_made_once_witness:
  "scan_flanduse_timeseries example_namelist = Inr (Some ''/in/lu.nc'')
   \<and> Subprocess ''. /case.gddgen/.env_mach_specific.sh;   conda run -n ctsm_pylib python3 /ctsm/python/ctsm/crop_calendars/make_lu_for_gddgen.py --flanduse-timeseries /in/lu.nc -y1 2000 -yN 2005 --outfile /case.gddgen/flanduse_timeseries.nc''
       \<in> set (fst (run_phase_flanduse (example_world [] [] example_namelist 0) example_self))
   \<and> filter spawns (fst (run_phase_flanduse
         (example_world [''/case.gddgen/flanduse_timeseries.nc''] [] example_namelist 0)
         example_self)) = []"
proof -
  have s: "run_startyear example_self = 2000" and n: "run_Nyears example_self = 5"
    by (simp_all add: example_self_def)
  have ft: "file_text (example_world ps [] example_namelist 0)
              (os_path_join (path_gddgen example_self) [''CaseDocs'', ''lnd_in''])
            = Some example_namelist" for ps
    by (simp add: example_world_def example_self_def os_path_join_def join_step_def)
  have cw: "can_write (example_world ps [] example_namelist 0) ''make_lu_for_gddgen.py.log''" for ps
    by (simp add: example_world_def)
  have paths: "os_path_join (ctsm_root example_self)
                 [''python'', ''ctsm'', ''crop_calendars'', ''make_lu_for_gddgen.py'']
               = ''/ctsm/python/ctsm/crop_calendars/make_lu_for_gddgen.py''"
    "os_path_join (path_gddgen example_self) [''flanduse_timeseries.nc'']
               = ''/case.gddgen/flanduse_timeseries.nc''"
    "caseroot example_self = ''/case.gddgen''"
    by (simp_all add: example_self_def os_path_join_def join_step_def)
  have ex: "path_exists (example_world ps [] example_namelist 0) p = (p \<in> set ps)" for ps p
    by (simp add: example_world_def)
  note t1 = landuse_file_made_once [OF s n ft example_namelist_scan example_conda cw, of "[]"]
  note t2 = landuse_file_made_once [OF s n ft example_namelist_scan example_conda cw,
      of "[''/case.gddgen/flanduse_timeseries.nc'']"]
  show ?thesis
    using t1 t2 example_namelist_scan
    by (simp add: paths ex str_int_examples composed_command_def)
qed

section \<open>Properties of the namelist scanner\<close>

lemma rx_match_lits: "rx_match (map Lit k @ r) (k @ s) = rx_match r s"
  by (induction k) simp_all

lemma rx_match_star:
  assumes "rx_match r s = Some gs" and "s = [] \<or> hd s \<noteq> c"
  shows "rx_match (Star c # r) (replicate n c @ s) = Some gs"
proof (induction n)
  case 0
  show ?case using assms by (cases s) auto
next
  case (Suc n)
  then show ?case by simp
qed

lemma rx_match_group_none:
  assumes "q \<notin> set s"
  shows "rx_match [GroupAny, Lit q] s = None"
  using assms by (induction s) auto

lemma rx_match_group:
  assumes "CHR 0x0A \<notin> set v" and "q \<notin> set rest" and "q \<noteq> CHR 0x0A"
  shows "rx_match [GroupAny, Lit q] (v @ q # rest) = Some [v]"
  using assms
proof (induction v)
  case Nil
  then show ?case by (simp add: rx_match_group_none)
next
  case (Cons x v)
  then show ?case by auto
qed

lemma rx_match_namelist_line:
  assumes "CHR 0x0A \<notin> set v" and "CHR 0x27 \<notin> set rest"
    and "key \<noteq> []" and "hd key \<noteq> CHR '' ''"
  shows "rx_match (key_value_rx key) (namelist_line a key b c v @ rest) = Some [v]"
proof -
  let ?q = "CHR 0x27"
  have g: "rx_match [GroupAny, Lit ?q] (v @ ?q # rest) = Some [v]"
    using assms(1,2) by (intro rx_match_group) simp_all
  then have 1: "rx_match [Lit ?q, GroupAny, Lit ?q] (?q # v @ ?q # rest) = Some [v]"
    by simp
  have 2: "rx_match [Star CHR '' '', Lit ?q, GroupAny, Lit ?q]
             (replicate c CHR '' '' @ ?q # v @ ?q # rest) = Some [v]"
    using 1 by (intro rx_match_star) simp_all
  then have 3: "rx_match [Lit CHR ''='', Star CHR '' '', Lit ?q, GroupAny, Lit ?q]
             (CHR ''='' # replicate c CHR '' '' @ ?q # v @ ?q # rest) = Some [v]"
    by simp
  have 4: "rx_match [Star CHR '' '', Lit CHR ''='', Star CHR '' '', Lit ?q, GroupAny, Lit ?q]
             (replicate b CHR '' '' @ CHR ''='' # replicate c CHR '' '' @ ?q # v @ ?q # rest)
           = Some [v]"
    using 3 by (intro rx_match_star) simp_all
  then have 5: "rx_match (map Lit key @ [Star CHR '' '', Lit CHR ''='', Star CHR '' '', Lit ?q, GroupAny, Lit ?q])
             (key @ replicate b CHR '' '' @ CHR ''='' # replicate c CHR '' '' @ ?q # v @ ?q # rest)
           = Some [v]"
    by (simp only: rx_match_lits)
  have "rx_match (Star CHR '' '' # map Lit key @ [Star CHR '' '', Lit CHR ''='', Star CHR '' '', Lit ?q, GroupAny, Lit ?q])
             (replicate a CHR '' '' @ key @ replicate b CHR '' '' @ CHR ''='' # replicate c CHR '' '' @ ?q # v @ ?q # rest)
           = Some [v]"
    using 5 assms(3,4) by (intro rx_match_star) (simp_all add: hd_append)
  then show ?thesis by (simp add: key_value_rx_def namelist_line_def)
qed

lemma rx_match_groups:
  "rx_match r s = Some gs \<Longrightarrow> length gs = length (filter (\<lambda>i. i = GroupAny) r)"
proof (induction r s arbitrary: gs rule: rx_match.induct)
  case (1 s)
  then show ?case by simp
next
  case (2 c r)
  then show ?case by simp
next
  case (3 c r x t)
  then show ?case by (simp split: if_splits)
next
  case (4 c r)
  then show ?case by simp
next
  case (5 c r x t)
  then show ?case by (simp split: if_splits option.splits)
next
  case (6 r)
  then show ?case by auto
next
  case (7 r x t)
  then show ?case by (auto split: if_splits option.splits list.splits)
qed

lemma key_value_rx_one_group:
  "rx_match (key_value_rx key) s \<noteq> Some []"
proof
  assume "rx_match (key_value_rx key) s = Some []"
  from rx_match_groups [OF this] show False
    by (simp add: key_value_rx_def)
qed

lemma scan_lines_never_raises:
  "scan_lines (key_value_rx key) ls \<noteq> Inl e"
  by (induction ls) (auto simp add: key_value_rx_one_group split: option.splits list.splits)

lemma scan_lines_none:
  "(\<forall>l \<in> set ls. rx_match rx l = None) \<Longrightarrow> scan_lines rx ls = Inr None"
  by (induction ls) auto

lemma scan_lines_skip:
  "(\<forall>l \<in> set pre. rx_match rx l = None) \<Longrightarrow> scan_lines rx (pre @ ls) = scan_lines rx ls"
  by (induction pre) auto

lemma py_lines_line:
  assumes "CHR 0x0A \<notin> set l"
  shows "py_lines (l @ CHR 0x0A # rest) = (l @ [CHR 0x0A]) # py_lines rest"
  using assms by (induction l) auto

lemma py_lines_last:
  assumes "CHR 0x0A \<notin> set l" and "l \<noteq> []"
  shows "py_lines l = [l]"
  using assms
proof (induction l)
  case Nil
  then show ?case by simp
next
  case (Cons x l)
  then show ?case by (cases l) auto
qed

lemma py_lines_pre:
  assumes "\<forall>l \<in> set pre. CHR 0x0A \<notin> set l"
  shows "py_lines (concat (map (\<lambda>l. l @ [CHR 0x0A]) pre) @ rest)
         = map (\<lambda>l. l @ [CHR 0x0A]) pre @ py_lines rest"
  using assms by (induction pre) (simp_all add: py_lines_line)

lemma namelist_line_no_newline:
  assumes "CHR 0x0A \<notin> set v" and "CHR 0x0A \<notin> set key"
  shows "CHR 0x0A \<notin> set (namelist_line a key b c v)"
  using assms by (auto simp add: namelist_line_def)

text \<open>
  Claim C7. When the first line of the namelist that the pattern matches is
  \<open>flanduse_timeseries = 'X'\<close>, with any number of spaces before the key and around the
  equals sign, the scanner returns exactly \<open>X\<close>. When no line matches it returns
  \<open>None\<close>. It raises on no text.
\<close>

theorem flanduse_scanner_extracts_value:
  assumes "\<forall>l \<in> set pre. CHR 0x0A \<notin> set l
             \<and> rx_match (key_value_rx ''flanduse_timeseries'') (l @ [CHR 0x0A]) = None"
    and "CHR 0x0A \<notin> set v"
    and "rest = [] \<or> hd rest = CHR 0x0A"
  shows "scan_flanduse_timeseries
           (concat (map (\<lambda>l. l @ [CHR 0x0A]) pre)
              @ namelist_line a ''flanduse_timeseries'' b c v @ rest) = Inr (Some v)
    \<and> ((\<forall>l \<in> set (py_lines text).
           rx_match (key_value_rx ''flanduse_timeseries'') l = None) \<longrightarrow>
         scan_flanduse_timeseries text = Inr None)
    \<and> (\<forall>e. scan_flanduse_timeseries text \<noteq> Inl e)"
proof -
  let ?rx = "key_value_rx ''flanduse_timeseries''"
  let ?line = "namelist_line a ''flanduse_timeseries'' b c v"
  have nl: "CHR 0x0A \<notin> set ?line"
    using assms(2) by (intro namelist_line_no_newline) simp_all
  have ne: "?line \<noteq> []"
    by (simp add: namelist_line_def)
  have m: "rx_match ?rx (?line @ r) = Some [v]" if "CHR 0x27 \<notin> set r" for r
    using assms(2) that by (intro rx_match_namelist_line) simp_all
  have skip: "\<forall>l \<in> set (map (\<lambda>l. l @ [CHR 0x0A]) pre). rx_match ?rx l = None"
    using assms(1) by auto
  have pre: "py_lines (concat (map (\<lambda>l. l @ [CHR 0x0A]) pre) @ ?line @ rest)
             = map (\<lambda>l. l @ [CHR 0x0A]) pre @ py_lines (?line @ rest)"
    using assms(1) by (intro py_lines_pre) simp
  have here: "scan_lines ?rx (py_lines (?line @ rest)) = Inr (Some v)"
  proof (cases rest)
    case Nil
    then have "py_lines (?line @ rest) = [?line]"
      using nl ne by (simp add: py_lines_last)
    moreover have "rx_match ?rx ?line = Some [v]"
      using m [of "[]"] by simp
    ultimately show ?thesis by simp
  next
    case (Cons x post)
    then have x: "x = CHR 0x0A" using assms(3) by simp
    then have "py_lines (?line @ rest) = (?line @ [CHR 0x0A]) # py_lines post"
      using Cons nl by (simp add: py_lines_line)
    moreover have "rx_match ?rx (?line @ [CHR 0x0A]) = Some [v]"
      using m [of "[CHR 0x0A]"] by simp
    ultimately show ?thesis by simp
  qed
  have found: "scan_flanduse_timeseries
           (concat (map (\<lambda>l. l @ [CHR 0x0A]) pre) @ ?line @ rest) = Inr (Some v)"
    unfolding scan_flanduse_timeseries_def pre
    using scan_lines_skip [OF skip] here by simp
  have missing: "scan_flanduse_timeseries text = Inr None"
    if "\<forall>l \<in> set (py_lines text). rx_match ?rx l = None"
    unfolding scan_flanduse_timeseries_def using that by (rule scan_lines_none)
  have total: "scan_flanduse_timeseries text \<noteq> Inl e" for e
    unfolding scan_flanduse_timeseries_def by (rule scan_lines_never_raises)
  show ?thesis using found missing total by blast
qed

theorem flanduse_scanner_extracts_value_witness:
  "scan_flanduse_timeseries example_namelist = Inr (Some ''/in/lu.nc'')
   \<and> scan_flanduse_timeseries (''&clm_inparm'' @ [CHR 0x0A] @ ''/'' @ [CHR 0x0A]) = Inr None"
proof -
  have pre: "\<forall>l \<in> set [''&clm_inparm'', '' fsurdat = '/in/surf.nc'' @ [CHR 0x27]].
          CHR 0x0A \<notin> set l
          \<and> rx_match (key_value_rx ''flanduse_timeseries'') (l @ [CHR 0x0A]) = None"
    by (simp add: key_value_rx_def)
  have v: "CHR 0x0A \<notin> set ''/in/lu.nc''" by simp
  have rest: "CHR 0x0A # ''/'' @ [CHR 0x0A] = [] \<or> hd (CHR 0x0A # ''/'' @ [CHR 0x0A]) = CHR 0x0A"
    by simp
  have none: "\<forall>l \<in> set (py_lines (''&clm_inparm'' @ [CHR 0x0A] @ ''/'' @ [CHR 0x0A])).
          rx_match (key_value_rx ''flanduse_timeseries'') l = None"
    by (simp add: key_value_rx_def)
  have whole: "concat (map (\<lambda>l. l @ [CHR 0x0A]) [''&clm_inparm'', '' fsurdat = '/in/surf.nc'' @ [CHR 0x27]])
        @ namelist_line 1 ''flanduse_timeseries'' 1 1 ''/in/lu.nc'' @ CHR 0x0A # ''/'' @ [CHR 0x0A]
        = example_namelist"
    by (simp add: example_namelist_def namelist_line_def)
  show ?thesis
    using flanduse_scanner_extracts_value [OF pre v rest, of 1 1 1 "''&clm_inparm'' @ [CHR 0x0A] @ ''/'' @ [CHR 0x0A]"] none
    unfolding whole by blast
qed

section \<open>Properties of the discovery of the maturity file\<close>















section \<open>Properties of the case colours\<close>

lemma case_color_dict_lookup:
  "map_of case_color_dict k =
     (if k = ''clm default'' \<or> k = ''5.0 lu'' then Some [92 / 255, 219 / 255, 219 / 255]
      else if k = ''prescribed calendars'' \<or> k = ''5.2 lu''
           then Some [250 / 255, 102 / 255, 240 / 255]
      else if k = ''prescribed maturity'' then Some [128 / 255, 0, 0]
      else if k = ''prescribed sowing'' then Some [133 / 255, 92 / 255, 255 / 255]
      else None)"
  by (simp add: case_color_dict_def)

lemma case_color_dict_keys:
  "k \<in> set (map fst case_color_dict) \<longleftrightarrow>
     k = ''clm default'' \<or> k = ''prescribed calendars'' \<or> k = ''prescribed maturity''
     \<or> k = ''prescribed sowing'' \<or> k = ''5.0 lu'' \<or> k = ''5.2 lu''"
  by (simp add: case_color_dict_def)

lemma cropcal_colors_cases_table:
  "cropcal_colors_cases casename =
     (let k = casename_for_colors casename
      in if k = ''clm default'' \<or> k = ''5.0 lu'' then Some [92 / 255, 219 / 255, 219 / 255]
         else if k = ''prescribed calendars'' \<or> k = ''5.2 lu''
              then Some [250 / 255, 102 / 255, 240 / 255]
         else if k = ''prescribed maturity'' then Some [128 / 255, 0, 0]
         else if k = ''prescribed sowing'' then Some [133 / 255, 92 / 255, 255 / 255]
         else None)"
  unfolding cropcal_colors_cases_def Let_def case_color_dict_keys case_color_dict_lookup
  by auto

lemma strip_trailing_marker_cases:
  assumes "spec_strip_trailing_marker s = k"
  shows "s = k \<or> s = k @ '' (0)'' \<or> s = k @ '' (1)''"
proof (cases "suffix '' (0)'' s \<or> suffix '' (1)'' s")
  case False
  then show ?thesis using assms by (simp add: spec_strip_trailing_marker_def)
next
  case True
  then obtain xs m where s: "s = xs @ m" and m: "m = '' (0)'' \<or> m = '' (1)''"
    by (auto simp add: suffix_def)
  then have "take (length s - 4) s = xs" by auto
  then have "k = xs" using assms True by (simp add: spec_strip_trailing_marker_def)
  then show ?thesis using s m by auto
qed

lemma remove_markers_of_recognized:
  assumes "k = ''clm default'' \<or> k = ''prescribed calendars'' \<or> k = ''prescribed maturity''
     \<or> k = ''prescribed sowing'' \<or> k = ''5.0 lu'' \<or> k = ''5.2 lu''"
    and "s = k \<or> s = k @ '' (0)'' \<or> s = k @ '' (1)''"
  shows "py_replace '' (1)'' [] (py_replace '' (0)'' [] s) = k"
  using assms by (elim disjE) (simp_all add: py_replace.simps)

text \<open>
  Claim C10, as stated: the name is lowercased, a trailing \<open> (0)\<close> or \<open> (1)\<close> is
  stripped, and every name other than the six recognized ones gets \<open>None\<close>. The name
  \<open>clm (0) default\<close> has no trailing marker and is not a recognized name, yet the
  lookup gives it the colour of \<open>clm default\<close>: the marker is removed wherever it
  stands.
\<close>

theorem case_color_marker_inside_counterexample:
  "cropcal_colors_cases ''clm (0) default'' = Some [92 / 255, 219 / 255, 219 / 255]
   \<and> spec_case_color ''clm (0) default'' = None"
  by (simp add: cropcal_colors_cases_table casename_for_colors_def py_lower_def lower_char_def
      py_replace.simps spec_case_color_def spec_strip_trailing_marker_def suffix_to_prefix)

text \<open>
  Claim C10, amended. The lookup lowercases the name, removes every occurrence of
  \<open> (0)\<close> and then every occurrence of \<open> (1)\<close>, and returns the fixed colour when
  what is left is one of the six recognized names, \<open>None\<close> otherwise; it is total.
  Every name to which the lookup with one trailing marker stripped gives a colour gets
  that same colour.
\<close>

theorem case_color_lookup:
  "cropcal_colors_cases casename =
     (let k = py_replace '' (1)'' [] (py_replace '' (0)'' [] (py_lower casename))
      in if k = ''clm default'' \<or> k = ''5.0 lu'' then Some [92 / 255, 219 / 255, 219 / 255]
         else if k = ''prescribed calendars'' \<or> k = ''5.2 lu''
              then Some [250 / 255, 102 / 255, 240 / 255]
         else if k = ''prescribed maturity'' then Some [128 / 255, 0, 0]
         else if k = ''prescribed sowing'' then Some [133 / 255, 92 / 255, 255 / 255]
         else None)
   \<and> (spec_case_color casename = Some c \<longrightarrow> cropcal_colors_cases casename = Some c)"
proof -
  have table: "cropcal_colors_cases casename =
     (let k = py_replace '' (1)'' [] (py_replace '' (0)'' [] (py_lower casename))
      in if k = ''clm default'' \<or> k = ''5.0 lu'' then Some [92 / 255, 219 / 255, 219 / 255]
         else if k = ''prescribed calendars'' \<or> k = ''5.2 lu''
              then Some [250 / 255, 102 / 255, 240 / 255]
         else if k = ''prescribed maturity'' then Some [128 / 255, 0, 0]
         else if k = ''prescribed sowing'' then Some [133 / 255, 92 / 255, 255 / 255]
         else None)"
    using cropcal_colors_cases_table [of casename] by (simp add: casename_for_colors_def)
  have agree: "cropcal_colors_cases casename = Some c" if spec: "spec_case_color casename = Some c"
  proof -
    let ?k = "spec_strip_trailing_marker (py_lower casename)"
    have rec: "?k = ''clm default'' \<or> ?k = ''prescribed calendars'' \<or> ?k = ''prescribed maturity''
       \<or> ?k = ''prescribed sowing'' \<or> ?k = ''5.0 lu'' \<or> ?k = ''5.2 lu''"
      using spec by (auto simp add: spec_case_color_def Let_def split: if_splits)
    have "casename_for_colors casename = ?k"
      unfolding casename_for_colors_def
      using rec strip_trailing_marker_cases [of "py_lower casename" ?k]
      by (intro remove_markers_of_recognized) simp_all
    then have "cropcal_colors_cases casename = spec_case_color casename"
      by (simp add: cropcal_colors_cases_table spec_case_color_def)
    then show ?thesis using spec by simp
  qed
  show ?thesis using table agree by blast
qed

theorem case_color_lookup_witness:
  "spec_case_color ''CLM Default (1)'' = Some [92 / 255, 219 / 255, 219 / 255]
   \<and> cropcal_colors_cases ''CLM Default (1)'' = Some [92 / 255, 219 / 255, 219 / 255]
   \<and> cropcal_colors_cases ''Prescribed Sowing (0) (1)'' = Some [133 / 255, 92 / 255, 1]
   \<and> cropcal_colors_cases ''my case'' = None"
proof -
  have spec: "spec_case_color ''CLM Default (1)'' = Some [92 / 255, 219 / 255, 219 / 255]"
    by (simp add: spec_case_color_def spec_strip_trailing_marker_def py_lower_def lower_char_def
        suffix_to_prefix)
  have k1: "py_replace '' (1)'' [] (py_replace '' (0)'' [] (py_lower ''Prescribed Sowing (0) (1)''))
            = ''prescribed sowing''"
    by (simp add: py_lower_def lower_char_def py_replace.simps)
  have k2: "py_replace '' (1)'' [] (py_replace '' (0)'' [] (py_lower ''my case'')) = ''my case''"
    by (simp add: py_lower_def lower_char_def py_replace.simps)
  have a: "cropcal_colors_cases ''CLM Default (1)'' = Some [92 / 255, 219 / 255, 219 / 255]"
    using case_color_lookup [of "''CLM Default (1)''" "[92 / 255, 219 / 255, 219 / 255]"] spec by blast
  have b: "cropcal_colors_cases ''Prescribed Sowing (0) (1)'' = Some [133 / 255, 92 / 255, 1]"
    using case_color_lookup [of "''Prescribed Sowing (0) (1)''" "[]"] unfolding k1 by simp
  have c: "cropcal_colors_cases ''my case'' = None"
    using case_color_lookup [of "''my case''" "[]"] unfolding k2 by simp
  show ?thesis using spec a b c by simp
qed

end
